theory Spec2Isabelle
  imports Complex_Main "HOL-Library.Multiset"
begin

section \<open>The descriptive-statistics notebook\<close>

text \<open>
  The program is the notebook \<^verbatim>\<open>1_descriptive_stats.ipynb\<close>: one integer array
  \<^verbatim>\<open>samples\<close>, sorted once, and five code cells that compute statistics of it with
  Python indexing, the Python builtins \<^verbatim>\<open>max\<close>, \<^verbatim>\<open>min\<close>, \<^verbatim>\<open>int\<close>, \<^verbatim>\<open>len\<close>, and the
  library reductions \<^verbatim>\<open>np.mean\<close>, \<^verbatim>\<open>np.var\<close>, \<^verbatim>\<open>np.std\<close>, \<^verbatim>\<open>np.bincount\<close>, \<^verbatim>\<open>argmax\<close>,
  \<^verbatim>\<open>sp.stats.skew\<close> and \<^verbatim>\<open>sp.stats.kurtosis\<close>.

  Conventions of the embedding:
  \<^item> an element of the integer array is an \<open>int\<close>; the 64-bit range of the array's
    element type is not modelled;
  \<^item> a floating-point number is a real number or one of the three special values
    \<open>NaN\<close>, \<open>PosInf\<close>, \<open>NegInf\<close>: rounding, overflow to infinity and the sign of zero are
    not modelled, the special results of division by zero are;
  \<^item> a raised exception is \<open>Inl\<close> of its class; numpy's floating-point warnings
    (division by zero, invalid value, mean of empty slice) do not raise and are
    not modelled;
  \<^item> the library functions follow their documented behaviour with the default
    arguments the notebook uses.
\<close>

subsection \<open>Exceptions and floating-point values\<close>

datatype py_error = IndexError | ValueError

datatype npfloat = Fin real | NaN | PosInf | NegInf

fun fneg :: "npfloat \<Rightarrow> npfloat" where
  "fneg (Fin a) = Fin (- a)"
| "fneg NaN = NaN"
| "fneg PosInf = NegInf"
| "fneg NegInf = PosInf"

fun fadd :: "npfloat \<Rightarrow> npfloat \<Rightarrow> npfloat" where
  "fadd (Fin a) (Fin b) = Fin (a + b)"
| "fadd NaN _ = NaN"
| "fadd _ NaN = NaN"
| "fadd PosInf NegInf = NaN"
| "fadd NegInf PosInf = NaN"
| "fadd PosInf _ = PosInf"
| "fadd NegInf _ = NegInf"
| "fadd (Fin a) PosInf = PosInf"
| "fadd (Fin a) NegInf = NegInf"

definition fsub :: "npfloat \<Rightarrow> npfloat \<Rightarrow> npfloat" where
  "fsub x y = fadd x (fneg y)"

text \<open>The infinity of the sign of \<open>a\<close>, for a real \<open>a\<close> that is not zero.\<close>

definition inf_of_sign :: "real \<Rightarrow> npfloat" where
  "inf_of_sign a = (if 0 < a then PosInf else NegInf)"

fun fmul :: "npfloat \<Rightarrow> npfloat \<Rightarrow> npfloat" where
  "fmul (Fin a) (Fin b) = Fin (a * b)"
| "fmul NaN _ = NaN"
| "fmul _ NaN = NaN"
| "fmul (Fin a) PosInf = (if a = 0 then NaN else inf_of_sign a)"
| "fmul (Fin a) NegInf = (if a = 0 then NaN else inf_of_sign (- a))"
| "fmul PosInf (Fin b) = (if b = 0 then NaN else inf_of_sign b)"
| "fmul NegInf (Fin b) = (if b = 0 then NaN else inf_of_sign (- b))"
| "fmul PosInf PosInf = PosInf"
| "fmul PosInf NegInf = NegInf"
| "fmul NegInf PosInf = NegInf"
| "fmul NegInf NegInf = PosInf"

text \<open>
  Division of numpy floating-point scalars: a zero divisor gives \<open>NaN\<close> for \<open>0 / 0\<close>
  and an infinity otherwise (with a warning), never \<^verbatim>\<open>ZeroDivisionError\<close>. The zero
  divisors of the notebook are a standard deviation, a variance and a count, all \<open>+0\<close>.
\<close>

fun fdiv :: "npfloat \<Rightarrow> npfloat \<Rightarrow> npfloat" where
  "fdiv (Fin a) (Fin b) =
     (if b = 0 then (if a = 0 then NaN else inf_of_sign a) else Fin (a / b))"
| "fdiv NaN _ = NaN"
| "fdiv _ NaN = NaN"
| "fdiv (Fin a) PosInf = Fin 0"
| "fdiv (Fin a) NegInf = Fin 0"
| "fdiv PosInf (Fin b) = (if 0 \<le> b then PosInf else NegInf)"
| "fdiv NegInf (Fin b) = (if 0 \<le> b then NegInf else PosInf)"
| "fdiv PosInf PosInf = NaN"
| "fdiv PosInf NegInf = NaN"
| "fdiv NegInf PosInf = NaN"
| "fdiv NegInf NegInf = NaN"

fun fsqrt :: "npfloat \<Rightarrow> npfloat" where
  "fsqrt (Fin a) = (if a < 0 then NaN else Fin (sqrt a))"
| "fsqrt NaN = NaN"
| "fsqrt PosInf = PosInf"
| "fsqrt NegInf = NaN"

text \<open>\<^verbatim>\<open>x ** k\<close> for a natural exponent, by repeated multiplication.\<close>

fun fpow :: "npfloat \<Rightarrow> nat \<Rightarrow> npfloat" where
  "fpow x 0 = Fin 1"
| "fpow x (Suc k) = fmul x (fpow x k)"

text \<open>\<^verbatim>\<open>x ** 1.5\<close>.\<close>

fun fpow_1_5 :: "npfloat \<Rightarrow> npfloat" where
  "fpow_1_5 (Fin a) = (if a < 0 then NaN else Fin (a powr (3 / 2)))"
| "fpow_1_5 NaN = NaN"
| "fpow_1_5 PosInf = PosInf"
| "fpow_1_5 NegInf = NaN"

subsection \<open>Python builtins\<close>

text \<open>
  \<^verbatim>\<open>a[i]\<close> for an index \<open>i \<ge> 0\<close>: the notebook's indices are \<^verbatim>\<open>int\<close> of a positive
  quotient, so Python's negative indices never occur.
\<close>

definition getitem :: "int list \<Rightarrow> nat \<Rightarrow> py_error + int" where
  "getitem a i = (if i < length a then Inr (a ! i) else Inl IndexError)"

text \<open>\<^verbatim>\<open>int(x)\<close> of a float truncates towards zero.\<close>

definition py_int :: "real \<Rightarrow> int" where
  "py_int x = (if 0 \<le> x then \<lfloor>x\<rfloor> else \<lceil>x\<rceil>)"

text \<open>\<^verbatim>\<open>max(a)\<close> and \<^verbatim>\<open>min(a)\<close> raise \<^verbatim>\<open>ValueError\<close> on an empty sequence.\<close>

definition py_max :: "int list \<Rightarrow> py_error + int" where
  "py_max a = (case a of [] \<Rightarrow> Inl ValueError | x # xs \<Rightarrow> Inr (fold max xs x))"

definition py_min :: "int list \<Rightarrow> py_error + int" where
  "py_min a = (case a of [] \<Rightarrow> Inl ValueError | x # xs \<Rightarrow> Inr (fold min xs x))"

subsection \<open>numpy and scipy reductions\<close>

definition np_sort :: "int list \<Rightarrow> int list" where
  "np_sort a = sort a"

text \<open>The integer array read as floats, as every floating-point reduction does first.\<close>

definition asfloat :: "int list \<Rightarrow> npfloat list" where
  "asfloat a = map (\<lambda>v. Fin (of_int v)) a"

definition np_sum :: "npfloat list \<Rightarrow> npfloat" where
  "np_sum x = foldr fadd x (Fin 0)"

text \<open>\<^verbatim>\<open>np.mean\<close>: the sum over the count; \<open>0 / 0 = NaN\<close> on an empty array.\<close>

definition np_mean :: "npfloat list \<Rightarrow> npfloat" where
  "np_mean x = fdiv (np_sum x) (Fin (real (length x)))"

text \<open>
  \<^verbatim>\<open>np.var(a, ddof)\<close>: the sum of the squared deviations from the mean over
  \<^verbatim>\<open>max(n - ddof, 0)\<close>. The notebook calls it with the default \<^verbatim>\<open>ddof = 0\<close>.
\<close>

definition np_var :: "nat \<Rightarrow> npfloat list \<Rightarrow> npfloat" where
  "np_var ddof x =
     (let arrmean = np_mean x;
          d = map (\<lambda>v. fsub v arrmean) x;
          sq = map (\<lambda>v. fmul v v) d
      in fdiv (np_sum sq) (Fin (real (length x - ddof))))"

definition np_std :: "nat \<Rightarrow> npfloat list \<Rightarrow> npfloat" where
  "np_std ddof x = fsqrt (np_var ddof x)"

text \<open>
  \<^verbatim>\<open>np.bincount\<close>: \<^verbatim>\<open>ValueError\<close> on a negative element; otherwise the array of
  length \<^verbatim>\<open>max(a) + 1\<close> (empty for an empty \<open>a\<close>) whose entry \<open>k\<close> counts the occurrences
  of \<open>k\<close>.
\<close>

definition np_bincount :: "int list \<Rightarrow> py_error + nat list" where
  "np_bincount a =
     (if list_ex (\<lambda>v. v < 0) a then Inl ValueError
      else case a of
             [] \<Rightarrow> Inr []
           | x # xs \<Rightarrow> Inr (map (\<lambda>k. count_list a (int k)) [0 ..< nat (fold max xs x) + 1]))"

text \<open>
  \<^verbatim>\<open>argmax\<close>: the index of the first occurrence of the maximum; \<^verbatim>\<open>ValueError\<close> on
  an empty array. The scan keeps the best index and replaces it on a strictly
  larger entry only.
\<close>

fun argmax_scan :: "nat list \<Rightarrow> nat \<Rightarrow> nat \<Rightarrow> nat \<Rightarrow> nat" where
  "argmax_scan [] i best bv = best"
| "argmax_scan (v # vs) i best bv =
     (if bv < v then argmax_scan vs (Suc i) i v else argmax_scan vs (Suc i) best bv)"

definition np_argmax :: "nat list \<Rightarrow> py_error + nat" where
  "np_argmax c = (case c of [] \<Rightarrow> Inl ValueError | v # vs \<Rightarrow> Inr (argmax_scan vs 1 0 v))"

text \<open>
  scipy's central moment \<open>m\<^sub>k = (1/n) \<Sum> (x - mean)\<^sup>k\<close> and the two shape statistics
  with their defaults (\<^verbatim>\<open>bias=True\<close>, \<^verbatim>\<open>fisher=True\<close>): \<^verbatim>\<open>skew = m3 / m2**1.5\<close> and
  \<^verbatim>\<open>kurtosis = m4 / m2**2 - 3\<close>, both \<open>NaN\<close> where the variance is zero up to the
  resolution \<open>10\<^sup>-\<^sup>1\<^sup>5\<close> of the float type relative to the mean.
\<close>

definition sp_moment :: "nat \<Rightarrow> npfloat \<Rightarrow> npfloat list \<Rightarrow> npfloat" where
  "sp_moment k mean x = np_mean (map (\<lambda>v. fpow (fsub v mean) k) x)"

definition resolution :: real where
  "resolution = 1 / 10 ^ 15"

definition sp_zero :: "npfloat \<Rightarrow> npfloat \<Rightarrow> bool" where
  "sp_zero m2 mean =
     (case m2 of
        Fin v \<Rightarrow> (case mean of Fin mu \<Rightarrow> v \<le> (resolution * mu)\<^sup>2 | _ \<Rightarrow> False)
      | _ \<Rightarrow> False)"

definition sp_skew :: "npfloat list \<Rightarrow> npfloat" where
  "sp_skew x =
     (let mean = np_mean x;
          m2 = sp_moment 2 mean x;
          m3 = sp_moment 3 mean x
      in if sp_zero m2 mean then NaN else fdiv m3 (fpow_1_5 m2))"

definition sp_kurtosis :: "npfloat list \<Rightarrow> npfloat" where
  "sp_kurtosis x =
     (let mean = np_mean x;
          m2 = sp_moment 2 mean x;
          m4 = sp_moment 4 mean x;
          vals = (if sp_zero m2 mean then NaN else fdiv m4 (fpow m2 2))
      in fsub vals (Fin 3))"

subsection \<open>The cells of the notebook\<close>

text \<open>
  Every cell reads the global \<^verbatim>\<open>samples\<close>, the sorted array; an exception ends the
  cell at the statement that raises it. Each printed expression is a definition of
  its own, named after the printed label or the variable of the notebook.
\<close>

definition samples_of :: "int list \<Rightarrow> int list" where
  "samples_of inp = np_sort inp"

definition mean :: "int list \<Rightarrow> npfloat" where
  "mean samples = np_mean (asfloat samples)"

definition mode :: "int list \<Rightarrow> py_error + nat" where
  "mode samples =
     (case np_bincount samples of Inl e \<Rightarrow> Inl e | Inr c \<Rightarrow> np_argmax c)"

definition median_index :: "nat \<Rightarrow> nat" where
  "median_index n = nat (py_int (real (n + 1) / 2))"

definition median :: "int list \<Rightarrow> py_error + int" where
  "median samples = getitem samples (median_index (length samples))"

definition range_stat :: "int list \<Rightarrow> py_error + int" where
  "range_stat samples =
     (case py_max samples of Inl e \<Rightarrow> Inl e | Inr hi \<Rightarrow>
        (case py_min samples of Inl e \<Rightarrow> Inl e | Inr lo \<Rightarrow> Inr (hi - lo)))"

definition upper_q_index :: "nat \<Rightarrow> nat" where
  "upper_q_index n = nat (py_int (real (3 * (n + 1)) / 4))"

definition lower_q_index :: "nat \<Rightarrow> nat" where
  "lower_q_index n = nat (py_int (real (n + 1) / 4))"

definition upper_q :: "int list \<Rightarrow> py_error + int" where
  "upper_q samples = getitem samples (upper_q_index (length samples))"

definition lower_q :: "int list \<Rightarrow> py_error + int" where
  "lower_q samples = getitem samples (lower_q_index (length samples))"

definition variance :: "int list \<Rightarrow> npfloat" where
  "variance samples = np_var 0 (asfloat samples)"

definition std :: "int list \<Rightarrow> npfloat" where
  "std samples = np_std 0 (asfloat samples)"

definition g1 :: "int list \<Rightarrow> npfloat" where
  "g1 samples = sp_skew (asfloat samples)"

definition kurtosis :: "int list \<Rightarrow> npfloat" where
  "kurtosis samples = sp_kurtosis (asfloat samples)"

text \<open>The cell of the central tendencies: mean, mode, median, in this order.\<close>

record central =
  c_mean :: npfloat
  c_mode :: nat
  c_median :: int

definition central_cell :: "int list \<Rightarrow> py_error + central" where
  "central_cell samples =
     (case mode samples of Inl e \<Rightarrow> Inl e | Inr mo \<Rightarrow>
        (case median samples of Inl e \<Rightarrow> Inl e | Inr me \<Rightarrow>
           Inr \<lparr>c_mean = mean samples, c_mode = mo, c_median = me\<rparr>))"

text \<open>
  The cell of the range and the quartiles: the range, then \<^verbatim>\<open>upper_q\<close>, then
  \<^verbatim>\<open>lower_q\<close>, then \<^verbatim>\<open>IQR = upper_q - lower_q\<close>.
\<close>

record dispersion =
  d_range :: int
  d_upper_q :: int
  d_lower_q :: int
  d_iqr :: int

definition dispersion_cell :: "int list \<Rightarrow> py_error + dispersion" where
  "dispersion_cell samples =
     (case range_stat samples of Inl e \<Rightarrow> Inl e | Inr r \<Rightarrow>
        (case upper_q samples of Inl e \<Rightarrow> Inl e | Inr uq \<Rightarrow>
           (case lower_q samples of Inl e \<Rightarrow> Inl e | Inr lq \<Rightarrow>
              Inr \<lparr>d_range = r, d_upper_q = uq, d_lower_q = lq, d_iqr = uq - lq\<rparr>)))"

text \<open>
  The cell of the skewness: it binds \<^verbatim>\<open>mean\<close>, \<^verbatim>\<open>mode\<close>, \<^verbatim>\<open>median\<close> and \<^verbatim>\<open>std\<close>
  first, then prints \<^verbatim>\<open>(mean - mode) / std\<close>, \<^verbatim>\<open>3 * (mean - median) / std\<close> and
  \<^verbatim>\<open>sp.stats.skew(samples)\<close>.
\<close>

record skewness =
  s_sk1 :: npfloat
  s_sk2 :: npfloat
  s_g1 :: npfloat

definition skew_cell :: "int list \<Rightarrow> py_error + skewness" where
  "skew_cell samples =
     (let mu = mean samples in
      case mode samples of Inl e \<Rightarrow> Inl e | Inr mo \<Rightarrow>
        (case median samples of Inl e \<Rightarrow> Inl e | Inr me \<Rightarrow>
           (let sd = std samples in
            Inr \<lparr>s_sk1 = fdiv (fsub mu (Fin (real mo))) sd,
                 s_sk2 = fdiv (fmul (Fin 3) (fsub mu (Fin (of_int me)))) sd,
                 s_g1 = g1 samples\<rparr>)))"

text \<open>The array literal of the notebook.\<close>

definition notebook_input :: "int list" where
  "notebook_input = [1, 4, 6, 3, 5, 7, 4, 2, 3, 4, 6, 6, 5, 7, 6, 6, 5]"

subsection \<open>The formulas of the specification\<close>




definition spec_kth :: "int list \<Rightarrow> nat \<Rightarrow> int option" where
  "spec_kth xs k = (if 1 \<le> k \<and> k \<le> length xs then Some (xs ! (k - 1)) else None)"

text \<open>The position \<open>\<lceil>(n+1)/2\<rceil>\<close>, counting from 1.\<close>

definition spec_median_position :: "nat \<Rightarrow> nat" where
  "spec_median_position n = nat \<lceil>real (n + 1) / 2\<rceil>"

text \<open>
  A printed decimal \<open>c\<close> with ten places agrees with a float: the float is finite and
  \<open>c\<close> is within half a unit of the tenth place of it.
\<close>

definition rounds_to :: "npfloat \<Rightarrow> real \<Rightarrow> bool" where
  "rounds_to x c = (case x of Fin v \<Rightarrow> \<bar>v - c\<bar> \<le> 5 / 10 ^ 11 | _ \<Rightarrow> False)"

section \<open>Basic facts about the reductions\<close>





lemma samples_of_sort: "samples_of inp = sort inp"
  by (simp add: samples_of_def np_sort_def)










section \<open>The notebook's own array\<close>

lemma sorted_input:
  "samples_of notebook_input = [1, 2, 3, 3, 4, 4, 4, 5, 5, 5, 6, 6, 6, 6, 6, 7, 7]"
  by (simp add: samples_of_def np_sort_def notebook_input_def)

lemma sqrt_808_lower: "28.42534080710 \<le> sqrt 808"
  by (rule real_le_rsqrt) (simp add: power2_eq_square)

lemma sqrt_808_upper: "sqrt 808 \<le> 28.42534080711"
  by (rule real_le_lsqrt) (simp_all add: power2_eq_square)

lemma sqrt_808_289: "sqrt (808 / 289) = sqrt 808 / 17"
proof -
  have "sqrt 289 = sqrt (17\<^sup>2)" by simp
  then have "sqrt 289 = 17" by (simp only: real_sqrt_abs)
  then show ?thesis by (simp add: real_sqrt_divide)
qed

lemma inv_sqrt_808: "1 / sqrt 808 = sqrt 808 / 808"
proof -
  have "sqrt 808 * sqrt 808 = 808" by simp
  then show ?thesis by (simp add: field_simps)
qed

lemma powr_3_2: "0 \<le> a \<Longrightarrow> a powr (3 / 2) = a * sqrt a"
proof (cases "a = 0")
  case True
  then show ?thesis by simp
next
  case False
  assume "0 \<le> a"
  with False have pos: "0 < a" by simp
  have "a powr (3 / 2) = a powr (1 + 1 / 2)" by simp
  also have "\<dots> = a powr 1 * a powr (1 / 2)" by (simp only: powr_add)
  also have "\<dots> = a * sqrt a" using pos by (simp add: powr_half_sqrt)
  finally show ?thesis .
qed

lemma input_mean: "mean (samples_of notebook_input) = Fin (80 / 17)"
  by (simp add: sorted_input mean_def np_mean_def np_sum_def asfloat_def)

lemma input_mode: "mode (samples_of notebook_input) = Inr 6"
  by (simp add: sorted_input mode_def np_bincount_def np_argmax_def upt_conv_Cons)

lemma input_median: "median (samples_of notebook_input) = Inr 5"
  by (simp add: sorted_input median_def getitem_def median_index_def py_int_def)

lemma input_dispersion:
  "dispersion_cell (samples_of notebook_input) =
     Inr \<lparr>d_range = 6, d_upper_q = 6, d_lower_q = 4, d_iqr = 2\<rparr>"
  by (simp add: sorted_input dispersion_cell_def range_stat_def py_max_def py_min_def
      upper_q_def lower_q_def getitem_def upper_q_index_def lower_q_index_def py_int_def)

lemma input_variance: "variance (samples_of notebook_input) = Fin (808 / 289)"
  by (simp add: sorted_input variance_def np_var_def np_mean_def np_sum_def asfloat_def fsub_def)

lemma input_std: "std (samples_of notebook_input) = Fin (sqrt 808 / 17)"
  using input_variance by (simp add: std_def variance_def np_std_def sqrt_808_289)

lemma input_m2:
  "sp_moment 2 (Fin (80 / 17)) (asfloat (samples_of notebook_input)) = Fin (808 / 289)"
  by (simp add: sorted_input sp_moment_def np_mean_def np_sum_def asfloat_def fsub_def
      numeral_2_eq_2)

lemma input_m3:
  "sp_moment 3 (Fin (80 / 17)) (asfloat (samples_of notebook_input)) = Fin (- (13476 / 4913))"
  by (simp add: sorted_input sp_moment_def np_mean_def np_sum_def asfloat_def fsub_def
      numeral_3_eq_3)

lemma input_m4:
  "sp_moment 4 (Fin (80 / 17)) (asfloat (samples_of notebook_input)) = Fin (1618072 / 83521)"
  by (simp add: sorted_input sp_moment_def np_mean_def np_sum_def asfloat_def fsub_def
      eval_nat_numeral)

lemma input_kurtosis: "kurtosis (samples_of notebook_input) = Fin (- (42565 / 81608))"
  using input_mean input_m2 input_m4
  by (simp add: kurtosis_def sp_kurtosis_def mean_def sp_zero_def resolution_def fsub_def
      numeral_2_eq_2)

lemma input_g1: "g1 (samples_of notebook_input) = Fin (- (13476 * sqrt 808 / 652864))"
proof -
  have "(808 / 289 :: real) powr (3 / 2) = 808 / 289 * (sqrt 808 / 17)"
    by (simp add: powr_3_2 sqrt_808_289)
  then show ?thesis
    using input_mean input_m2 input_m3 inv_sqrt_808
    by (simp add: g1_def sp_skew_def mean_def sp_zero_def resolution_def field_simps)
qed

lemma input_skew:
  "skew_cell (samples_of notebook_input) =
     Inr \<lparr>s_sk1 = Fin (- (22 * sqrt 808 / 808)), s_sk2 = Fin (- (15 * sqrt 808 / 808)),
          s_g1 = Fin (- (13476 * sqrt 808 / 652864))\<rparr>"
  using input_mean input_mode input_median input_std input_g1 inv_sqrt_808
  by (simp add: skew_cell_def fsub_def field_simps)

lemma input_central:
  "central_cell (samples_of notebook_input) =
     Inr \<lparr>c_mean = Fin (80 / 17), c_mode = 6, c_median = 5\<rparr>"
  by (simp add: central_cell_def input_mean input_mode input_median)

text \<open>
  C1. For the array of the notebook (17 values) the cells give: mean \<open>80/17\<close>, which is
  4.7058823529 to ten places, mode 6, median 5, range 6, upper quartile 6, lower
  quartile 4, IQR 2, and, each to ten places, variance 2.7958477509, standard
  deviation 1.6720788710, sk1 -0.7739572992, sk2 -0.5276981585, g1 -0.5867376555 and
  kurtosis -0.5215787668.
\<close>

theorem notebook_input_statistics:
  "length notebook_input = 17
   \<and> central_cell (samples_of notebook_input) =
       Inr \<lparr>c_mean = Fin (80 / 17), c_mode = 6, c_median = 5\<rparr>
   \<and> rounds_to (mean (samples_of notebook_input)) 4.7058823529
   \<and> dispersion_cell (samples_of notebook_input) =
       Inr \<lparr>d_range = 6, d_upper_q = 6, d_lower_q = 4, d_iqr = 2\<rparr>
   \<and> rounds_to (variance (samples_of notebook_input)) 2.7958477509
   \<and> rounds_to (std (samples_of notebook_input)) 1.6720788710
   \<and> (case skew_cell (samples_of notebook_input) of
         Inl e \<Rightarrow> False
       | Inr r \<Rightarrow> rounds_to (s_sk1 r) (- 0.7739572992)
                \<and> rounds_to (s_sk2 r) (- 0.5276981585)
                \<and> rounds_to (s_g1 r) (- 0.5867376555))
   \<and> rounds_to (kurtosis (samples_of notebook_input)) (- 0.5215787668)"
proof -
  note b = sqrt_808_lower sqrt_808_upper
  have n: "length notebook_input = 17" by (simp add: notebook_input_def)
  have m: "rounds_to (mean (samples_of notebook_input)) 4.7058823529"
    by (simp add: input_mean rounds_to_def)
  have v: "rounds_to (variance (samples_of notebook_input)) 2.7958477509"
    by (simp add: input_variance rounds_to_def)
  have s: "rounds_to (std (samples_of notebook_input)) 1.6720788710"
    using b by (simp add: input_std rounds_to_def)
  have k: "rounds_to (kurtosis (samples_of notebook_input)) (- 0.5215787668)"
    by (simp add: input_kurtosis rounds_to_def)
  have sk: "case skew_cell (samples_of notebook_input) of
         Inl e \<Rightarrow> False
       | Inr r \<Rightarrow> rounds_to (s_sk1 r) (- 0.7739572992)
                \<and> rounds_to (s_sk2 r) (- 0.5276981585)
                \<and> rounds_to (s_g1 r) (- 0.5867376555)"
    using b by (simp add: input_skew rounds_to_def)
  from n input_central m input_dispersion v s sk k show ?thesis by blast
qed

section \<open>Indices, order statistics and the mode\<close>

subsection \<open>The three indices\<close>

text \<open>\<^verbatim>\<open>int(a / b)\<close> of two positive integers is their integer quotient.\<close>

lemma median_index_div: "median_index n = (n + 1) div 2"
proof -
  have "\<lfloor>real (n + 1) / 2\<rfloor> = int ((n + 1) div 2)"
    using floor_divide_of_nat_eq [of "n + 1" 2, where ?'a = real] by simp
  then show ?thesis by (simp add: median_index_def py_int_def)
qed

lemma upper_q_index_div: "upper_q_index n = (3 * (n + 1)) div 4"
proof -
  have "\<lfloor>real (3 * (n + 1)) / 4\<rfloor> = int ((3 * (n + 1)) div 4)"
    using floor_divide_of_nat_eq [of "3 * (n + 1)" 4, where ?'a = real] by simp
  then show ?thesis by (simp add: upper_q_index_def py_int_def)
qed

lemma lower_q_index_div: "lower_q_index n = (n + 1) div 4"
proof -
  have "\<lfloor>real (n + 1) / 4\<rfloor> = int ((n + 1) div 4)"
    using floor_divide_of_nat_eq [of "n + 1" 4, where ?'a = real] by simp
  then show ?thesis by (simp add: lower_q_index_def py_int_def)
qed

lemma spec_median_position_div: "spec_median_position n = (n + 2) div 2"
proof -
  have "\<lceil>real (n + 1) / 2\<rceil> = - (- int (n + 1) div 2)"
    using ceiling_divide_eq_div [of "int (n + 1)" 2, where ?'a = real] by simp
  also have "\<dots> = int ((n + 2) div 2)" by linarith
  finally show ?thesis by (simp add: spec_median_position_def)
qed


lemma index_order1: "(n + 1) div 4 \<le> (n + 1) div (2::nat)"
proof -
  have "(n + 1) div 4 = (n + 1) div 2 div 2" by (simp add: div_mult2_eq [symmetric])
  then show ?thesis by simp
qed

lemma index_order2: "(n + 1) div 2 \<le> 3 * (n + 1) div (4::nat)"
proof -
  have "(n + 1) div 2 = (2 * (n + 1)) div 4" by simp
  also have "\<dots> \<le> 3 * (n + 1) div 4" by (rule div_le_mono) simp
  finally show ?thesis .
qed

subsection \<open>Range, median and quartiles of the sorted array\<close>




lemma sort_nth_in_set: "i < length inp \<Longrightarrow> sort inp ! i \<in> set inp"
  using nth_mem [of i "sort inp"] by simp

lemma median_samples:
  assumes "2 \<le> length inp"
  shows "median (samples_of inp) = Inr (sort inp ! ((length inp + 1) div 2))"
proof -
  have "(length inp + 1) div 2 < length inp" using assms by linarith
  then show ?thesis by (simp add: median_def getitem_def median_index_div samples_of_sort)
qed




subsection \<open>The first maximum of the bin counts\<close>







subsection \<open>Constant arrays\<close>









subsection \<open>Small examples\<close>






section \<open>The kurtosis\<close>




section \<open>The positional median\<close>

text \<open>
  C3. For every array of length \<open>n \<ge> 2\<close> the median of the notebook is the element at
  index \<open>\<lfloor>(n+1)/2\<rfloor>\<close>, counting from 0, of the values sorted ascending, that is the
  \<open>(\<lfloor>(n+1)/2\<rfloor> + 1)\<close>-th element counting from 1; it is one of the values (two middle
  elements are never averaged), and its position is \<open>\<lceil>(n+1)/2\<rceil>\<close> counting from 1
  exactly when \<open>n\<close> is even.
\<close>

theorem median_positional:
  assumes "2 \<le> length inp"
  shows "median (samples_of inp) = Inr (sort inp ! ((length inp + 1) div 2))
       \<and> spec_kth (sort inp) ((length inp + 1) div 2 + 1)
           = Some (sort inp ! ((length inp + 1) div 2))
       \<and> sort inp ! ((length inp + 1) div 2) \<in> set inp
       \<and> (spec_median_position (length inp) = (length inp + 1) div 2 + 1) = even (length inp)"
proof -
  have lt: "(length inp + 1) div 2 < length inp" using assms by linarith
  have b: "spec_kth (sort inp) ((length inp + 1) div 2 + 1)
             = Some (sort inp ! ((length inp + 1) div 2))"
    using lt by (simp add: spec_kth_def)
  have c: "sort inp ! ((length inp + 1) div 2) \<in> set inp"
    using lt by (rule sort_nth_in_set)
  have d: "(spec_median_position (length inp) = (length inp + 1) div 2 + 1) = even (length inp)"
    unfolding spec_median_position_div by presburger
  from median_samples [OF assms] b c d show ?thesis by blast
qed

theorem median_positional_witness:
  "2 \<le> length [3, 1, 2, 4 :: int] \<and> median (samples_of [3, 1, 2, 4]) = Inr 3
   \<and> spec_kth [1, 2, 3, 4] 3 = Some 3"
  using median_positional [of "[3, 1, 2, 4]"] by (simp add: spec_kth_def)

text \<open>
  For the three values 1, 2, 3 the median of the notebook is 3, the third element,
  while the \<open>\<lceil>(n+1)/2\<rceil>\<close>-th element counting from 1 is 2; for a single value the lookup
  raises \<^verbatim>\<open>IndexError\<close>.
\<close>

theorem median_counterexample:
  "median (samples_of [1, 2, 3]) = Inr 3
   \<and> spec_kth (sort [1, 2, 3]) (spec_median_position (length [1, 2, 3 :: int])) = Some 2
   \<and> median (samples_of [5]) = Inl IndexError"
  by (simp add: median_def getitem_def median_index_div samples_of_sort spec_kth_def
      spec_median_position_div)

section \<open>The positional quartiles\<close>




section \<open>Variance and standard deviation\<close>



section \<open>The mode\<close>




section \<open>The empty array\<close>

text \<open>
  C7. On the empty integer array the mean, the variance, the standard deviation, g1
  and the kurtosis are \<open>NaN\<close>; the mode and the range raise \<^verbatim>\<open>ValueError\<close>; the median
  and both quartiles raise \<^verbatim>\<open>IndexError\<close>; so the cell of the central tendencies, the
  cell of the quartiles and the cell of the skewness each end in \<^verbatim>\<open>ValueError\<close>.
\<close>

theorem empty_input:
  "samples_of [] = []
   \<and> mean (samples_of []) = NaN
   \<and> variance (samples_of []) = NaN
   \<and> std (samples_of []) = NaN
   \<and> g1 (samples_of []) = NaN
   \<and> kurtosis (samples_of []) = NaN
   \<and> mode (samples_of []) = Inl ValueError
   \<and> range_stat (samples_of []) = Inl ValueError
   \<and> median (samples_of []) = Inl IndexError
   \<and> upper_q (samples_of []) = Inl IndexError
   \<and> lower_q (samples_of []) = Inl IndexError
   \<and> central_cell (samples_of []) = Inl ValueError
   \<and> dispersion_cell (samples_of []) = Inl ValueError
   \<and> skew_cell (samples_of []) = Inl ValueError"
proof -
  have s: "samples_of [] = []" by (simp add: samples_of_sort)
  have m: "mean [] = NaN" by (simp add: mean_def np_mean_def np_sum_def asfloat_def)
  have v: "variance [] = NaN"
    by (simp add: variance_def np_var_def np_mean_def np_sum_def asfloat_def)
  have sd: "std [] = NaN" using v by (simp add: std_def variance_def np_std_def)
  have g: "g1 [] = NaN"
    by (simp add: g1_def sp_skew_def sp_moment_def sp_zero_def np_mean_def np_sum_def asfloat_def)
  have k: "kurtosis [] = NaN"
    by (simp add: kurtosis_def sp_kurtosis_def sp_moment_def sp_zero_def np_mean_def np_sum_def
        asfloat_def fsub_def)
  have mo: "mode [] = Inl ValueError" by (simp add: mode_def np_bincount_def np_argmax_def)
  have r: "range_stat [] = Inl ValueError" by (simp add: range_stat_def py_max_def)
  have me: "median [] = Inl IndexError" by (simp add: median_def getitem_def)
  have u: "upper_q [] = Inl IndexError" by (simp add: upper_q_def getitem_def)
  have l: "lower_q [] = Inl IndexError" by (simp add: lower_q_def getitem_def)
  have c: "central_cell [] = Inl ValueError" by (simp add: central_cell_def mo)
  have d: "dispersion_cell [] = Inl ValueError" by (simp add: dispersion_cell_def r)
  have sk: "skew_cell [] = Inl ValueError" by (simp add: skew_cell_def mo)
  show ?thesis unfolding s using m v sd g k mo r me u l c d sk by simp
qed

text \<open>
  The mean and the standard deviation of the empty array are \<open>NaN\<close>, returned and not
  raised, and the exception of the median is \<^verbatim>\<open>IndexError\<close>.
\<close>

theorem empty_input_counterexample:
  "mean (samples_of []) = NaN \<and> std (samples_of []) = NaN
   \<and> median (samples_of []) = Inl IndexError"
  by (simp add: samples_of_sort mean_def std_def np_std_def np_var_def np_mean_def np_sum_def
      asfloat_def median_def getitem_def)

section \<open>Constant arrays\<close>




section \<open>The order of the quartiles and the median\<close>

text \<open>
  C9. Whenever the lower quartile, the median and the upper quartile of the notebook
  are all defined (none of the three lookups raises), lower quartile \<open>\<le>\<close> median \<open>\<le>\<close>
  upper quartile.
\<close>

theorem quartile_order:
  assumes "lower_q (samples_of inp) = Inr l"
    and "median (samples_of inp) = Inr m"
    and "upper_q (samples_of inp) = Inr u"
  shows "l \<le> m \<and> m \<le> u"
proof -
  let ?n = "length inp"
  let ?s = "sort inp"
  from assms(3) have ub: "3 * (?n + 1) div 4 < ?n" and u: "u = ?s ! (3 * (?n + 1) div 4)"
    by (auto simp: upper_q_def getitem_def upper_q_index_div samples_of_sort split: if_splits)
  from assms(2) have m: "m = ?s ! ((?n + 1) div 2)"
    by (auto simp: median_def getitem_def median_index_div samples_of_sort split: if_splits)
  from assms(1) have l: "l = ?s ! ((?n + 1) div 4)"
    by (auto simp: lower_q_def getitem_def lower_q_index_div samples_of_sort split: if_splits)
  have s: "sorted ?s" by simp
  have i1: "(?n + 1) div 4 \<le> (?n + 1) div 2" by (rule index_order1)
  have i2: "(?n + 1) div 2 \<le> 3 * (?n + 1) div 4" by (rule index_order2)
  have "?s ! ((?n + 1) div 4) \<le> ?s ! ((?n + 1) div 2)"
    using s i1 i2 ub by (intro sorted_nth_mono) simp_all
  moreover have "?s ! ((?n + 1) div 2) \<le> ?s ! (3 * (?n + 1) div 4)"
    using s i2 ub by (intro sorted_nth_mono) simp_all
  ultimately show ?thesis using l m u by simp
qed

theorem quartile_order_witness:
  "lower_q (samples_of [40, 10, 30, 20]) = Inr 20 \<and> median (samples_of [40, 10, 30, 20]) = Inr 30
   \<and> upper_q (samples_of [40, 10, 30, 20]) = Inr 40 \<and> (20::int) \<le> 30 \<and> (30::int) \<le> 40"
proof -
  have a: "lower_q (samples_of [40, 10, 30, 20]) = Inr 20"
    by (simp add: lower_q_def getitem_def lower_q_index_div samples_of_sort)
  have b: "median (samples_of [40, 10, 30, 20]) = Inr 30"
    by (simp add: median_def getitem_def median_index_div samples_of_sort)
  have c: "upper_q (samples_of [40, 10, 30, 20]) = Inr 40"
    by (simp add: upper_q_def getitem_def upper_q_index_div samples_of_sort)
  from quartile_order [OF a b c] a b c show ?thesis by simp
qed

section \<open>Lookups past the end of the array\<close>

text \<open>
  C10. A length \<open>n \<ge> 1\<close> does not keep the lookups in bounds: for every array of one
  value the index of the median is 1, the length of the array, and for every array of
  three values the index of the upper quartile is 3, the length of the array; both
  lookups raise \<^verbatim>\<open>IndexError\<close>.
\<close>

theorem lookups_out_of_bounds:
  assumes "length a = 1" and "length b = 3"
  shows "median_index (length a) = length a \<and> median (samples_of a) = Inl IndexError
       \<and> upper_q_index (length b) = length b \<and> upper_q (samples_of b) = Inl IndexError"
  using assms
  by (simp add: median_def upper_q_def getitem_def median_index_div upper_q_index_div
      samples_of_sort)

theorem lookups_out_of_bounds_witness:
  "length [5 :: int] = 1 \<and> length [1, 2, 3 :: int] = 3
   \<and> median (samples_of [5]) = Inl IndexError \<and> upper_q (samples_of [1, 2, 3]) = Inl IndexError"
  using lookups_out_of_bounds [of "[5]" "[1, 2, 3]"] by simp

end
